theory Spec2Isabelle
  imports Main "HOL-Library.Word"
begin

section \<open>The Glamora contracts: CreatorProfile, ContentPayment, GlamoraHub\<close>

text \<open>
  A shallow embedding of \<^verbatim>\<open>contracts/CreatorProfile.sol\<close> (which also holds the
  contract GlamoraHub) and \<^verbatim>\<open>contracts/ContentPayment.sol\<close>.

  \<^item> \<^verbatim>\<open>address\<close> is a 160-bit word, \<^verbatim>\<open>uint256\<close> a 256-bit word, a \<^verbatim>\<open>string\<close> the list
    of its bytes (so \<^verbatim>\<open>bytes(s).length\<close> is \<open>length s\<close>).
  \<^item> A Solidity \<^verbatim>\<open>mapping\<close> is a total function: a key that was never written reads
    as the all-zero value of the value type.
  \<^item> A call that reverts returns \<open>Inl\<close> of an error and no state: the state of every
    contract stays what it was before the call. A call that returns normally gives
    \<open>Inr\<close> of its return value and the new state.
  \<^item> The contracts are compiled with \<^verbatim>\<open>pragma solidity ^0.8.20\<close>: \<^verbatim>\<open>+=\<close> and \<^verbatim>\<open>++\<close> on
    a \<^verbatim>\<open>uint256\<close> revert (error \<open>Panic\<close>) instead of wrapping around.
  \<^item> \<^verbatim>\<open>payable(a).transfer(v)\<close> reverts when the recipient does not accept the
    payment (a contract without a payable receive function, such as GlamoraHub
    itself, or one that needs more than the 2300 gas stipend). Which recipients
    accept is a parameter \<open>accepts\<close> of the call. The balance of ContentPayment is
    always sufficient for the two transfers of \<^verbatim>\<open>purchaseContent\<close>, because
    \<^verbatim>\<open>msg.value\<close> is credited before the body runs and the body pays out exactly
    \<^verbatim>\<open>msg.value\<close>; the stipend does not allow the recipient to call back.
  \<^item> A function that is not declared \<^verbatim>\<open>payable\<close> reverts when the call carries a value
    (error \<open>NonPayable\<close>); only the two \<^verbatim>\<open>purchaseContent\<close> functions are payable.
  \<^item> Events are write-only logs that no function reads; they are not modelled.
\<close>

type_synonym address = "160 word"
type_synonym uint256 = "256 word"

text \<open>
  The error kinds. Each \<^verbatim>\<open>require\<close> of the source is mapped to the kind named in the
  comment beside it in the definitions below.
\<close>

datatype error =
    InvalidInput
  | AlreadyRegistered
  | NotRegistered
  | NotFound
  | Forbidden
  | AlreadyPurchased
  | SelfPurchaseForbidden
  | InsufficientPayment
  | TransferFailed
  | Panic
  | NonPayable

text \<open>What a function reads of its call: \<^verbatim>\<open>msg.sender\<close> and \<^verbatim>\<open>block.timestamp\<close>.\<close>

record call_ctx =
  msg_sender :: address
  block_timestamp :: uint256

text \<open>Checked addition of Solidity 0.8.\<close>

definition checked_add :: "uint256 \<Rightarrow> uint256 \<Rightarrow> error + uint256" where
  "checked_add a b = (if unat a + unat b < 2 ^ 256 then Inr (a + b) else Inl Panic)"

subsection \<open>contract CreatorProfile\<close>

record Creator =
  username :: string
  bio :: string
  wallet :: address
  createdAt :: uint256
  isActive :: bool

record CreatorProfile =
  creators :: "address \<Rightarrow> Creator"
  totalCreators :: uint256

definition zero_Creator :: Creator where
  "zero_Creator =
     \<lparr>username = [], bio = [], wallet = 0, Creator.createdAt = 0, Creator.isActive = False\<rparr>"

definition new_CreatorProfile :: CreatorProfile where
  "new_CreatorProfile = \<lparr>creators = (\<lambda>_. zero_Creator), totalCreators = 0\<rparr>"

definition registerCreator ::
  "call_ctx \<Rightarrow> address \<Rightarrow> string \<Rightarrow> string \<Rightarrow> CreatorProfile \<Rightarrow> error + CreatorProfile" where
  "registerCreator ctx creator' username' bio' s =
     (if \<not> length username' > 0 then Inl InvalidInput \<comment> \<open>Username cannot be empty\<close>
      else if \<not> length username' \<le> 50 then Inl InvalidInput \<comment> \<open>Username too long\<close>
      else if \<not> length bio' \<le> 500 then Inl InvalidInput \<comment> \<open>Bio too long\<close>
      else if Creator.isActive (creators s creator') then Inl AlreadyRegistered
        \<comment> \<open>Creator already registered\<close>
      else
        let s1 = s\<lparr>creators := (creators s)(creator' :=
                   \<lparr>username = username', bio = bio', wallet = creator',
                    Creator.createdAt = block_timestamp ctx, Creator.isActive = True\<rparr>)\<rparr>
        in (case checked_add (totalCreators s1) 1 of
              Inl e \<Rightarrow> Inl e
            | Inr n \<Rightarrow> Inr (s1\<lparr>totalCreators := n\<rparr>)))"

definition updateCreator ::
  "call_ctx \<Rightarrow> string \<Rightarrow> string \<Rightarrow> CreatorProfile \<Rightarrow> error + CreatorProfile" where
  "updateCreator ctx username' bio' s =
     (if \<not> Creator.isActive (creators s (msg_sender ctx)) then Inl NotRegistered
        \<comment> \<open>Creator not registered\<close>
      else if \<not> length username' > 0 then Inl InvalidInput
      else if \<not> length username' \<le> 50 then Inl InvalidInput
      else if \<not> length bio' \<le> 500 then Inl InvalidInput
      else
        let s1 = s\<lparr>creators := (creators s)(msg_sender ctx :=
                   (creators s (msg_sender ctx))\<lparr>username := username'\<rparr>)\<rparr>;
            s2 = s1\<lparr>creators := (creators s1)(msg_sender ctx :=
                   (creators s1 (msg_sender ctx))\<lparr>bio := bio'\<rparr>)\<rparr>
        in Inr s2)"

definition getCreator :: "address \<Rightarrow> CreatorProfile \<Rightarrow> error + Creator" where
  "getCreator wallet' s =
     (if \<not> Creator.isActive (creators s wallet') then Inl NotFound \<comment> \<open>Creator not found\<close>
      else Inr (creators s wallet'))"

definition isCreator :: "address \<Rightarrow> CreatorProfile \<Rightarrow> bool" where
  "isCreator wallet' s = Creator.isActive (creators s wallet')"

subsection \<open>contract ContentPayment\<close>

record Content =
  contentId :: uint256
  creator :: address
  title :: string
  contentHash :: string
  price :: uint256
  createdAt :: uint256
  isActive :: bool

record ContentPayment =
  contents :: "uint256 \<Rightarrow> Content"
  userAccess :: "address \<Rightarrow> uint256 \<Rightarrow> bool"
  creatorContents :: "address \<Rightarrow> uint256 list"
  nextContentId :: uint256
  totalRevenue :: uint256

definition zero_Content :: Content where
  "zero_Content =
     \<lparr>contentId = 0, creator = 0, title = [], contentHash = [], price = 0,
      createdAt = 0, isActive = False\<rparr>"

definition new_ContentPayment :: ContentPayment where
  "new_ContentPayment =
     \<lparr>contents = (\<lambda>_. zero_Content), userAccess = (\<lambda>_ _. False),
      creatorContents = (\<lambda>_. []), nextContentId = 1, totalRevenue = 0\<rparr>"

definition createContent ::
  "call_ctx \<Rightarrow> address \<Rightarrow> string \<Rightarrow> string \<Rightarrow> uint256 \<Rightarrow> ContentPayment
     \<Rightarrow> error + (uint256 \<times> ContentPayment)" where
  "createContent ctx creator' title' contentHash' price' s =
     (if \<not> length title' > 0 then Inl InvalidInput \<comment> \<open>Title cannot be empty\<close>
      else if \<not> length contentHash' > 0 then Inl InvalidInput
        \<comment> \<open>Content hash cannot be empty\<close>
      else if \<not> price' > 0 then Inl InvalidInput \<comment> \<open>Price must be greater than 0\<close>
      else
        let cid = nextContentId s;
            s1 = s\<lparr>contents := (contents s)(cid :=
                   \<lparr>contentId = cid, creator = creator', title = title',
                    contentHash = contentHash', price = price',
                    createdAt = block_timestamp ctx, isActive = True\<rparr>)\<rparr>;
            s2 = s1\<lparr>creatorContents := (creatorContents s1)(creator' :=
                   creatorContents s1 creator' @ [cid])\<rparr>
        in (case checked_add (nextContentId s2) 1 of
              Inl e \<Rightarrow> Inl e
            | Inr n \<Rightarrow> Inr (cid, s2\<lparr>nextContentId := n\<rparr>)))"

text \<open>
  \<^verbatim>\<open>payable(to).transfer(amount)\<close>: the payment is appended to the list of payments
  the call has made, or the call reverts.
\<close>

definition transfer ::
  "(address \<Rightarrow> bool) \<Rightarrow> address \<Rightarrow> uint256 \<Rightarrow> (address \<times> uint256) list
     \<Rightarrow> error + (address \<times> uint256) list" where
  "transfer accepts to amount sent =
     (if accepts to then Inr (sent @ [(to, amount)]) else Inl TransferFailed)"

text \<open>
  \<open>purchaseContent ctx msg_value accepts buyer' contentId' s\<close>: the function is payable,
  \<open>msg_value\<close> is \<^verbatim>\<open>msg.value\<close>. It returns the payments made and the new state.
\<close>

definition purchaseContent ::
  "call_ctx \<Rightarrow> uint256 \<Rightarrow> (address \<Rightarrow> bool) \<Rightarrow> address \<Rightarrow> uint256 \<Rightarrow> ContentPayment
     \<Rightarrow> error + ((address \<times> uint256) list \<times> ContentPayment)" where
  "purchaseContent ctx msg_value accepts buyer' contentId' s =
     (let content = contents s contentId' in
      if \<not> isActive content then Inl NotFound \<comment> \<open>Content not found or inactive\<close>
      else if \<not> msg_value \<ge> price content then Inl InsufficientPayment
        \<comment> \<open>Insufficient payment\<close>
      else if \<not> \<not> userAccess s buyer' contentId' then Inl AlreadyPurchased
        \<comment> \<open>Already purchased\<close>
      else if \<not> buyer' \<noteq> creator content then Inl SelfPurchaseForbidden
        \<comment> \<open>Creators cannot buy their own content\<close>
      else
        let s1 = s\<lparr>userAccess := (userAccess s)(buyer' :=
                   (userAccess s buyer')(contentId' := True))\<rparr>
        in (case transfer accepts (creator content) (price content) [] of
              Inl e \<Rightarrow> Inl e
            | Inr sent1 \<Rightarrow>
               (case checked_add (totalRevenue s1) (price content) of
                  Inl e \<Rightarrow> Inl e
                | Inr r \<Rightarrow>
                   let s2 = s1\<lparr>totalRevenue := r\<rparr> in
                   if msg_value > price content then
                     (case transfer accepts buyer' (msg_value - price content) sent1 of
                        Inl e \<Rightarrow> Inl e
                      | Inr sent2 \<Rightarrow> Inr (sent2, s2))
                   else Inr (sent1, s2))))"

definition updateContentPrice ::
  "call_ctx \<Rightarrow> uint256 \<Rightarrow> uint256 \<Rightarrow> ContentPayment \<Rightarrow> error + ContentPayment" where
  "updateContentPrice ctx contentId' newPrice' s =
     (let content = contents s contentId' in
      if \<not> isActive content then Inl NotFound \<comment> \<open>Content not found\<close>
      else if \<not> creator content = msg_sender ctx then Inl Forbidden
        \<comment> \<open>Only creator can update\<close>
      else if \<not> newPrice' > 0 then Inl InvalidInput \<comment> \<open>Price must be greater than 0\<close>
      else Inr (s\<lparr>contents := (contents s)(contentId' := content\<lparr>price := newPrice'\<rparr>)\<rparr>))"

definition hasAccess :: "address \<Rightarrow> uint256 \<Rightarrow> ContentPayment \<Rightarrow> bool" where
  "hasAccess user' contentId' s =
     (if creator (contents s contentId') = user' then True
      else userAccess s user' contentId')"

definition getContent :: "uint256 \<Rightarrow> ContentPayment \<Rightarrow> error + Content" where
  "getContent contentId' s =
     (if \<not> isActive (contents s contentId') then Inl NotFound \<comment> \<open>Content not found\<close>
      else Inr (contents s contentId'))"

definition getCreatorContent :: "address \<Rightarrow> ContentPayment \<Rightarrow> uint256 list" where
  "getCreatorContent creator' s = creatorContents s creator'"

definition deactivateContent ::
  "call_ctx \<Rightarrow> uint256 \<Rightarrow> ContentPayment \<Rightarrow> error + ContentPayment" where
  "deactivateContent ctx contentId' s =
     (let content = contents s contentId' in
      if \<not> isActive content then Inl NotFound \<comment> \<open>Content not found\<close>
      else if \<not> creator content = msg_sender ctx then Inl Forbidden
        \<comment> \<open>Only creator can deactivate\<close>
      else Inr (s\<lparr>contents := (contents s)(contentId' := content\<lparr>isActive := False\<rparr>)\<rparr>))"

subsection \<open>contract GlamoraHub\<close>

text \<open>
  The hub deploys the two contracts above and calls them. \<open>hub_address\<close> is
  \<^verbatim>\<open>address(this)\<close>: inside a call that the hub makes, \<^verbatim>\<open>msg.sender\<close> is the hub. A
  revert of the called contract makes the calling function revert too. The functions
  of the hub carry the prefix \<open>hub_\<close>, since several have the name of the function
  they call.
\<close>

record GlamoraHub =
  creatorProfile :: CreatorProfile
  contentPayment :: ContentPayment
  owner :: address
  platformFee :: uint256
  hub_address :: address

definition new_GlamoraHub :: "call_ctx \<Rightarrow> address \<Rightarrow> GlamoraHub" where
  "new_GlamoraHub ctx this =
     \<lparr>creatorProfile = new_CreatorProfile, contentPayment = new_ContentPayment,
      owner = msg_sender ctx, platformFee = 0, hub_address = this\<rparr>"

definition from_hub :: "call_ctx \<Rightarrow> GlamoraHub \<Rightarrow> call_ctx" where
  "from_hub ctx h = ctx\<lparr>msg_sender := hub_address h\<rparr>"

definition hub_registerCreator ::
  "call_ctx \<Rightarrow> string \<Rightarrow> string \<Rightarrow> GlamoraHub \<Rightarrow> error + GlamoraHub" where
  "hub_registerCreator ctx username' bio' h =
     (case registerCreator (from_hub ctx h) (msg_sender ctx) username' bio' (creatorProfile h) of
        Inl e \<Rightarrow> Inl e
      | Inr p \<Rightarrow> Inr (h\<lparr>creatorProfile := p\<rparr>))"

definition hub_createContent ::
  "call_ctx \<Rightarrow> string \<Rightarrow> string \<Rightarrow> uint256 \<Rightarrow> GlamoraHub \<Rightarrow> error + (uint256 \<times> GlamoraHub)" where
  "hub_createContent ctx title' contentHash' price' h =
     (if \<not> isCreator (msg_sender ctx) (creatorProfile h) then Inl NotRegistered
        \<comment> \<open>Must be registered creator\<close>
      else
        (case createContent (from_hub ctx h) (msg_sender ctx) title' contentHash' price'
                (contentPayment h) of
           Inl e \<Rightarrow> Inl e
         | Inr (cid, l) \<Rightarrow> Inr (cid, h\<lparr>contentPayment := l\<rparr>)))"

definition hub_registerAndCreateContent ::
  "call_ctx \<Rightarrow> string \<Rightarrow> string \<Rightarrow> string \<Rightarrow> string \<Rightarrow> uint256 \<Rightarrow> GlamoraHub
     \<Rightarrow> error + (uint256 \<times> GlamoraHub)" where
  "hub_registerAndCreateContent ctx username' bio' title' contentHash' price' h =
     (case (if \<not> isCreator (msg_sender ctx) (creatorProfile h)
            then registerCreator (from_hub ctx h) (msg_sender ctx) username' bio'
                   (creatorProfile h)
            else Inr (creatorProfile h)) of
        Inl e \<Rightarrow> Inl e
      | Inr p \<Rightarrow>
         let h1 = h\<lparr>creatorProfile := p\<rparr> in
         (case createContent (from_hub ctx h1) (msg_sender ctx) title' contentHash' price'
                 (contentPayment h1) of
            Inl e \<Rightarrow> Inl e
          | Inr (cid, l) \<Rightarrow> Inr (cid, h1\<lparr>contentPayment := l\<rparr>)))"

definition hub_purchaseContent ::
  "call_ctx \<Rightarrow> uint256 \<Rightarrow> (address \<Rightarrow> bool) \<Rightarrow> uint256 \<Rightarrow> GlamoraHub
     \<Rightarrow> error + ((address \<times> uint256) list \<times> GlamoraHub)" where
  "hub_purchaseContent ctx msg_value accepts contentId' h =
     (case purchaseContent (from_hub ctx h) msg_value accepts (msg_sender ctx) contentId'
             (contentPayment h) of
        Inl e \<Rightarrow> Inl e
      | Inr (sent, l) \<Rightarrow> Inr (sent, h\<lparr>contentPayment := l\<rparr>))"

definition hub_getPlatformStats :: "GlamoraHub \<Rightarrow> error + (uint256 \<times> uint256 \<times> uint256)" where
  "hub_getPlatformStats h =
     (if nextContentId (contentPayment h) < 1 then Inl Panic
      else Inr (totalCreators (creatorProfile h), nextContentId (contentPayment h) - 1,
                totalRevenue (contentPayment h)))"

definition hub_isCreator :: "address \<Rightarrow> GlamoraHub \<Rightarrow> bool" where
  "hub_isCreator user' h = isCreator user' (creatorProfile h)"

definition hub_hasAccessToContent :: "address \<Rightarrow> uint256 \<Rightarrow> GlamoraHub \<Rightarrow> bool" where
  "hub_hasAccessToContent user' contentId' h = hasAccess user' contentId' (contentPayment h)"

definition hub_updatePlatformFee :: "call_ctx \<Rightarrow> uint256 \<Rightarrow> GlamoraHub \<Rightarrow> error + GlamoraHub" where
  "hub_updatePlatformFee ctx newFee' h =
     (if \<not> msg_sender ctx = owner h then Inl Forbidden \<comment> \<open>Only owner can update fee\<close>
      else if \<not> newFee' \<le> 1000 then Inl InvalidInput \<comment> \<open>Fee cannot exceed 10%\<close>
      else Inr (h\<lparr>platformFee := newFee'\<rparr>))"

subsection \<open>Transactions\<close>

text \<open>
  Every public state-changing function of the three contracts can be called by any
  account, on the hub or on the two contracts directly. A transaction is one such call
  with its sender, its time, the value sent with it and the accounts that accept a
  payment while it runs. A transaction that reverts leaves the deployed system as it
  was. Only the two payable functions, \<^verbatim>\<open>purchaseContent\<close> of ContentPayment and of
  the hub, take a value; a call of any other function reverts when a value is attached.
\<close>

datatype call =
    Profile_registerCreator address string string
  | Profile_updateCreator string string
  | Payment_createContent address string string uint256
  | Payment_purchaseContent address uint256
  | Payment_updateContentPrice uint256 uint256
  | Payment_deactivateContent uint256
  | Hub_registerCreator string string
  | Hub_createContent string string uint256
  | Hub_registerAndCreateContent string string string string uint256
  | Hub_purchaseContent uint256
  | Hub_updatePlatformFee uint256

datatype ret = Done | NewId uint256 | Sent "(address \<times> uint256) list"

record txn =
  tx_ctx :: call_ctx
  tx_value :: uint256
  tx_accepts :: "address \<Rightarrow> bool"
  tx_call :: call

fun exec_call ::
  "call_ctx \<Rightarrow> uint256 \<Rightarrow> (address \<Rightarrow> bool) \<Rightarrow> call \<Rightarrow> GlamoraHub \<Rightarrow> error + (ret \<times> GlamoraHub)" where
  "exec_call ctx v acc (Profile_registerCreator c u b) h =
     (if v \<noteq> 0 then Inl NonPayable
      else
       (case registerCreator ctx c u b (creatorProfile h) of
          Inl e \<Rightarrow> Inl e | Inr p \<Rightarrow> Inr (Done, h\<lparr>creatorProfile := p\<rparr>)))"
| "exec_call ctx v acc (Profile_updateCreator u b) h =
     (if v \<noteq> 0 then Inl NonPayable
      else
       (case updateCreator ctx u b (creatorProfile h) of
          Inl e \<Rightarrow> Inl e | Inr p \<Rightarrow> Inr (Done, h\<lparr>creatorProfile := p\<rparr>)))"
| "exec_call ctx v acc (Payment_createContent c t ch p) h =
     (if v \<noteq> 0 then Inl NonPayable
      else
       (case createContent ctx c t ch p (contentPayment h) of
          Inl e \<Rightarrow> Inl e | Inr (cid, l) \<Rightarrow> Inr (NewId cid, h\<lparr>contentPayment := l\<rparr>)))"
| "exec_call ctx v acc (Payment_purchaseContent b cid) h =
     (case purchaseContent ctx v acc b cid (contentPayment h) of
        Inl e \<Rightarrow> Inl e | Inr (sent, l) \<Rightarrow> Inr (Sent sent, h\<lparr>contentPayment := l\<rparr>))"
| "exec_call ctx v acc (Payment_updateContentPrice cid p) h =
     (if v \<noteq> 0 then Inl NonPayable
      else
       (case updateContentPrice ctx cid p (contentPayment h) of
          Inl e \<Rightarrow> Inl e | Inr l \<Rightarrow> Inr (Done, h\<lparr>contentPayment := l\<rparr>)))"
| "exec_call ctx v acc (Payment_deactivateContent cid) h =
     (if v \<noteq> 0 then Inl NonPayable
      else
       (case deactivateContent ctx cid (contentPayment h) of
          Inl e \<Rightarrow> Inl e | Inr l \<Rightarrow> Inr (Done, h\<lparr>contentPayment := l\<rparr>)))"
| "exec_call ctx v acc (Hub_registerCreator u b) h =
     (if v \<noteq> 0 then Inl NonPayable
      else
       (case hub_registerCreator ctx u b h of
          Inl e \<Rightarrow> Inl e | Inr h' \<Rightarrow> Inr (Done, h')))"
| "exec_call ctx v acc (Hub_createContent t ch p) h =
     (if v \<noteq> 0 then Inl NonPayable
      else
       (case hub_createContent ctx t ch p h of
          Inl e \<Rightarrow> Inl e | Inr (cid, h') \<Rightarrow> Inr (NewId cid, h')))"
| "exec_call ctx v acc (Hub_registerAndCreateContent u b t ch p) h =
     (if v \<noteq> 0 then Inl NonPayable
      else
       (case hub_registerAndCreateContent ctx u b t ch p h of
          Inl e \<Rightarrow> Inl e | Inr (cid, h') \<Rightarrow> Inr (NewId cid, h')))"
| "exec_call ctx v acc (Hub_purchaseContent cid) h =
     (case hub_purchaseContent ctx v acc cid h of
        Inl e \<Rightarrow> Inl e | Inr (sent, h') \<Rightarrow> Inr (Sent sent, h'))"
| "exec_call ctx v acc (Hub_updatePlatformFee f) h =
     (if v \<noteq> 0 then Inl NonPayable
      else
       (case hub_updatePlatformFee ctx f h of
          Inl e \<Rightarrow> Inl e | Inr h' \<Rightarrow> Inr (Done, h')))"

definition exec :: "txn \<Rightarrow> GlamoraHub \<Rightarrow> error + (ret \<times> GlamoraHub)" where
  "exec t h = exec_call (tx_ctx t) (tx_value t) (tx_accepts t) (tx_call t) h"

text \<open>The state after a transaction: unchanged when it reverted.\<close>

definition after :: "txn \<Rightarrow> GlamoraHub \<Rightarrow> GlamoraHub" where
  "after t h = (case exec t h of Inl e \<Rightarrow> h | Inr (r, h') \<Rightarrow> h')"

fun run :: "txn list \<Rightarrow> GlamoraHub \<Rightarrow> GlamoraHub" where
  "run [] h = h"
| "run (t # ts) h = run ts (after t h)"

text \<open>
  The same for one call on ContentPayment alone: the state of the contract after a
  call that gave \<open>r\<close> from state \<open>s\<close>.
\<close>

definition state_after :: "'s \<Rightarrow> error + ('a \<times> 's) \<Rightarrow> 's" where
  "state_after s r = (case r of Inl e \<Rightarrow> s | Inr (x, s') \<Rightarrow> s')"

text \<open>
  What a sequence of transactions did, read off the run: the content ids that the
  successful creations returned, in order, and the price that each successful purchase
  read from the content at the moment it ran.
\<close>

fun purchased_id :: "call_ctx \<Rightarrow> call \<Rightarrow> uint256 option" where
  "purchased_id ctx (Payment_purchaseContent b cid) = Some cid"
| "purchased_id ctx (Hub_purchaseContent cid) = Some cid"
| "purchased_id ctx _ = None"

definition sale :: "txn \<Rightarrow> GlamoraHub \<Rightarrow> nat list" where
  "sale t h =
     (case (purchased_id (tx_ctx t) (tx_call t), exec t h) of
        (Some cid, Inr _) \<Rightarrow> [unat (price (contents (contentPayment h) cid))]
      | _ \<Rightarrow> [])"

fun sales :: "txn list \<Rightarrow> GlamoraHub \<Rightarrow> nat list" where
  "sales [] h = []"
| "sales (t # ts) h = sale t h @ sales ts (after t h)"

definition new_id :: "txn \<Rightarrow> GlamoraHub \<Rightarrow> uint256 list" where
  "new_id t h = (case exec t h of Inr (NewId cid, _) \<Rightarrow> [cid] | _ \<Rightarrow> [])"

fun new_ids :: "txn list \<Rightarrow> GlamoraHub \<Rightarrow> uint256 list" where
  "new_ids [] h = []"
| "new_ids (t # ts) h = new_id t h @ new_ids ts (after t h)"

subsection \<open>The purchase preconditions, as the specification lists them\<close>

text \<open>
  The specification of \<^verbatim>\<open>purchase(buyerId, contentId, amountPaid)\<close> gives four
  preconditions, each with the error of its failure, and says that they are checked in
  this order. \<open>purchase_preconditions\<close> is that list, written from the specification;
  \<open>first_failure\<close> gives the error of the first precondition that does not hold.
  \<open>payment_completes\<close> says that the payment step after the checks goes through: the
  creator accepts the price, the revenue counter does not overflow, and the buyer
  accepts the refund when there is one. \<open>transfer_fails\<close> says that a transfer which the
  call reaches is not accepted: the one to the creator, or the refund that follows the
  revenue update.
\<close>

definition succeeded :: "error + 'a \<Rightarrow> bool" where
  "succeeded r = (case r of Inl e \<Rightarrow> False | Inr x \<Rightarrow> True)"

definition purchase_preconditions ::
  "uint256 \<Rightarrow> address \<Rightarrow> uint256 \<Rightarrow> ContentPayment \<Rightarrow> (bool \<times> error) list" where
  "purchase_preconditions amountPaid buyerId cid s =
     [(isActive (contents s cid), NotFound),
      (amountPaid \<ge> price (contents s cid), InsufficientPayment),
      (\<not> userAccess s buyerId cid, AlreadyPurchased),
      (buyerId \<noteq> creator (contents s cid), SelfPurchaseForbidden)]"

fun first_failure :: "(bool \<times> error) list \<Rightarrow> error option" where
  "first_failure [] = None"
| "first_failure ((ok, e) # ps) = (if ok then first_failure ps else Some e)"

definition payment_completes ::
  "uint256 \<Rightarrow> (address \<Rightarrow> bool) \<Rightarrow> address \<Rightarrow> uint256 \<Rightarrow> ContentPayment \<Rightarrow> bool" where
  "payment_completes amountPaid accepts buyerId cid s =
     (accepts (creator (contents s cid))
      \<and> unat (totalRevenue s) + unat (price (contents s cid)) < 2 ^ 256
      \<and> (if amountPaid > price (contents s cid) then accepts buyerId else True))"

definition transfer_fails ::
  "uint256 \<Rightarrow> (address \<Rightarrow> bool) \<Rightarrow> address \<Rightarrow> uint256 \<Rightarrow> ContentPayment \<Rightarrow> bool" where
  "transfer_fails amountPaid accepts buyerId cid s =
     (if accepts (creator (contents s cid))
      then unat (totalRevenue s) + unat (price (contents s cid)) < 2 ^ 256
           \<and> amountPaid > price (contents s cid) \<and> \<not> accepts buyerId
      else True)"

subsection \<open>A small deployment, for concrete checks\<close>

definition alice :: address where "alice = 1001"
definition bob :: address where "bob = 2002"
definition carol :: address where "carol = 3003"
definition hub_addr :: address where "hub_addr = 9009"

definition ctx_of :: "address \<Rightarrow> call_ctx" where
  "ctx_of a = \<lparr>msg_sender = a, block_timestamp = 1700000000\<rparr>"

definition accept_all :: "address \<Rightarrow> bool" where
  "accept_all a = True"

definition all_but :: "address \<Rightarrow> address \<Rightarrow> bool" where
  "all_but r a = (a \<noteq> r)"

definition tx_of :: "address \<Rightarrow> uint256 \<Rightarrow> call \<Rightarrow> txn" where
  "tx_of a v c = \<lparr>tx_ctx = ctx_of a, tx_value = v, tx_accepts = accept_all, tx_call = c\<rparr>"

text \<open>A ledger with one content, created for alice at price 100, then bought by bob.\<close>

definition example_ledger :: ContentPayment where
  "example_ledger =
     state_after new_ContentPayment
       (createContent (ctx_of carol) alice ''Tutorial'' ''ref1'' 100 new_ContentPayment)"

definition example_sold :: ContentPayment where
  "example_sold =
     state_after example_ledger
       (purchaseContent (ctx_of carol) 100 accept_all bob 1 example_ledger)"

text \<open>
  A hub deployed by carol and six transactions on it: alice registers and creates
  content 1 at price 100, bob buys it, alice raises the price to 250, bob registers and
  creates content 2, carol buys content 1 at the new price, and carol's purchase of the
  unassigned id 3 reverts.
\<close>

definition example_hub0 :: GlamoraHub where
  "example_hub0 = new_GlamoraHub (ctx_of carol) hub_addr"

definition example_txs :: "txn list" where
  "example_txs =
     [tx_of alice 0 (Hub_registerAndCreateContent ''Alice'' ''Fashion creator''
                       ''Tutorial'' ''ref1'' 100),
      tx_of bob 100 (Hub_purchaseContent 1),
      tx_of alice 0 (Payment_updateContentPrice 1 250),
      tx_of bob 0 (Hub_registerAndCreateContent ''Bob'' '''' ''Second'' ''ref2'' 70),
      tx_of carol 250 (Hub_purchaseContent 1),
      tx_of carol 70 (Hub_purchaseContent 3)]"

definition example_hub :: GlamoraHub where
  "example_hub = run (take 2 example_txs) example_hub0"

definition example_deactivate :: txn where
  "example_deactivate = tx_of alice 0 (Payment_deactivateContent 1)"

section \<open>What each function changes\<close>

lemma hasAccess_iff:
  "hasAccess u c s = (creator (contents s c) = u \<or> userAccess s u c)"
  by (simp add: hasAccess_def)

lemma createContent_Inr:
  assumes "createContent ctx c t ch p l = Inr (cid, l')"
  shows "cid = nextContentId l"
    and "unat (nextContentId l') = Suc (unat (nextContentId l))"
    and "totalRevenue l' = totalRevenue l"
    and "userAccess l' = userAccess l"
    and "k \<noteq> nextContentId l \<Longrightarrow> contents l' k = contents l k"
  using assms
  by (auto simp: createContent_def checked_add_def Let_def unat_word_ariths
        split: if_splits)

lemma purchaseContent_Inr:
  assumes "purchaseContent ctx v acc b cid l = Inr (sent, l')"
  shows "nextContentId l' = nextContentId l"
    and "contents l' = contents l"
    and "userAccess l u k \<Longrightarrow> userAccess l' u k"
    and "unat (totalRevenue l') = unat (totalRevenue l) + unat (price (contents l cid))"
  using assms
  by (auto simp: purchaseContent_def transfer_def checked_add_def Let_def unat_word_ariths
        split: if_splits)

lemma updateContentPrice_Inr:
  assumes "updateContentPrice ctx cid p l = Inr l'"
  shows "nextContentId l' = nextContentId l"
    and "creator (contents l' k) = creator (contents l k)"
    and "userAccess l' = userAccess l"
    and "totalRevenue l' = totalRevenue l"
    and "price (contents l' cid) = p"
  using assms
  by (auto simp: updateContentPrice_def Let_def split: if_splits)

lemma deactivateContent_Inr:
  assumes "deactivateContent ctx cid l = Inr l'"
  shows "nextContentId l' = nextContentId l"
    and "creator (contents l' k) = creator (contents l k)"
    and "userAccess l' = userAccess l"
    and "totalRevenue l' = totalRevenue l"
    and "\<not> isActive (contents l' cid)"
  using assms
  by (auto simp: deactivateContent_def Let_def split: if_splits)

text \<open>A successful call on the hub is a successful call on the contract behind it.\<close>

lemma hub_registerCreator_Inr:
  "hub_registerCreator ctx u b h = Inr h' \<Longrightarrow> contentPayment h' = contentPayment h"
  by (auto simp: hub_registerCreator_def split: sum.splits)

lemma hub_updatePlatformFee_Inr:
  "hub_updatePlatformFee ctx f h = Inr h' \<Longrightarrow> contentPayment h' = contentPayment h"
  by (auto simp: hub_updatePlatformFee_def split: if_splits)

lemma hub_createContent_Inr:
  "hub_createContent ctx t ch p h = Inr (cid, h') \<Longrightarrow>
     createContent (from_hub ctx h) (msg_sender ctx) t ch p (contentPayment h)
       = Inr (cid, contentPayment h')"
  by (auto simp: hub_createContent_def split: sum.splits if_splits)

lemma hub_registerAndCreateContent_Inr:
  "hub_registerAndCreateContent ctx u b t ch p h = Inr (cid, h') \<Longrightarrow>
     \<exists>ctx'. createContent ctx' (msg_sender ctx) t ch p (contentPayment h)
       = Inr (cid, contentPayment h')"
  by (auto simp: hub_registerAndCreateContent_def Let_def split: sum.splits if_splits)

lemma hub_purchaseContent_Inr:
  "hub_purchaseContent ctx v acc cid h = Inr (sent, h') \<Longrightarrow>
     purchaseContent (from_hub ctx h) v acc (msg_sender ctx) cid (contentPayment h)
       = Inr (sent, contentPayment h')"
  by (auto simp: hub_purchaseContent_def split: sum.splits)

text \<open>
  Every successful transaction is, for ContentPayment, one of five things: no change,
  a creation, a purchase, a price update or a deactivation.
\<close>

lemma exec_ledger_effect:
  assumes "exec t h = Inr (r, h')"
  shows "(contentPayment h' = contentPayment h \<and> r = Done
            \<and> purchased_id (tx_ctx t) (tx_call t) = None)
       \<or> (\<exists>ctx c ti ch p cid.
            createContent ctx c ti ch p (contentPayment h) = Inr (cid, contentPayment h')
            \<and> r = NewId cid \<and> purchased_id (tx_ctx t) (tx_call t) = None)
       \<or> (\<exists>ctx v acc b cid sent.
            purchaseContent ctx v acc b cid (contentPayment h) = Inr (sent, contentPayment h')
            \<and> r = Sent sent \<and> purchased_id (tx_ctx t) (tx_call t) = Some cid)
       \<or> (\<exists>ctx cid p.
            updateContentPrice ctx cid p (contentPayment h) = Inr (contentPayment h')
            \<and> r = Done \<and> purchased_id (tx_ctx t) (tx_call t) = None)
       \<or> (\<exists>ctx cid.
            deactivateContent ctx cid (contentPayment h) = Inr (contentPayment h')
            \<and> r = Done \<and> purchased_id (tx_ctx t) (tx_call t) = None)"
proof (cases "tx_call t")
  case (Profile_registerCreator c u b)
  then show ?thesis using assms by (auto simp: exec_def split: sum.splits if_splits)
next
  case (Profile_updateCreator u b)
  then show ?thesis using assms by (auto simp: exec_def split: sum.splits if_splits)
next
  case (Payment_createContent c ti ch p)
  then show ?thesis using assms by (fastforce simp: exec_def split: sum.splits if_splits)
next
  case (Payment_purchaseContent b cid)
  then show ?thesis using assms by (fastforce simp: exec_def split: sum.splits if_splits)
next
  case (Payment_updateContentPrice cid p)
  then show ?thesis using assms by (fastforce simp: exec_def split: sum.splits if_splits)
next
  case (Payment_deactivateContent cid)
  then show ?thesis using assms by (fastforce simp: exec_def split: sum.splits if_splits)
next
  case (Hub_registerCreator u b)
  then show ?thesis using assms
    by (auto simp: exec_def split: sum.splits if_splits dest: hub_registerCreator_Inr)
next
  case (Hub_createContent ti ch p)
  then show ?thesis using assms
    by (fastforce simp: exec_def split: sum.splits if_splits dest: hub_createContent_Inr)
next
  case (Hub_registerAndCreateContent u b ti ch p)
  then show ?thesis using assms
    by (fastforce simp: exec_def split: sum.splits if_splits dest: hub_registerAndCreateContent_Inr)
next
  case (Hub_purchaseContent cid)
  then show ?thesis using assms
    by (fastforce simp: exec_def split: sum.splits if_splits dest: hub_purchaseContent_Inr)
next
  case (Hub_updatePlatformFee f)
  then show ?thesis using assms
    by (auto simp: exec_def split: sum.splits if_splits dest: hub_updatePlatformFee_Inr)
qed

lemma after_Inl: "exec t h = Inl e \<Longrightarrow> after t h = h \<and> new_id t h = [] \<and> sale t h = []"
  by (cases "purchased_id (tx_ctx t) (tx_call t)") (simp_all add: after_def new_id_def sale_def)

section \<open>One transaction, then many\<close>

lemma step_revenue:
  "unat (totalRevenue (contentPayment (after t h)))
     = unat (totalRevenue (contentPayment h)) + sum_list (sale t h)"
proof (cases "exec t h")
  case (Inl e)
  then show ?thesis by (simp add: after_Inl)
next
  case (Inr x)
  obtain r h' where x: "exec t h = Inr (r, h')" using Inr by (cases x) simp
  show ?thesis
    using exec_ledger_effect [OF x] x
    by (auto simp: after_def sale_def createContent_Inr purchaseContent_Inr
          updateContentPrice_Inr deactivateContent_Inr)
qed

lemma run_revenue:
  "unat (totalRevenue (contentPayment (run ts h)))
     = unat (totalRevenue (contentPayment h)) + sum_list (sales ts h)"
  by (induction ts arbitrary: h) (simp_all add: step_revenue)

lemma step_ids:
  "(new_id t h = []
      \<and> nextContentId (contentPayment (after t h)) = nextContentId (contentPayment h)
      \<and> (\<forall>k. creator (contents (contentPayment (after t h)) k)
               = creator (contents (contentPayment h) k)))
 \<or> (new_id t h = [nextContentId (contentPayment h)]
      \<and> unat (nextContentId (contentPayment (after t h)))
          = Suc (unat (nextContentId (contentPayment h)))
      \<and> (\<forall>k. k \<noteq> nextContentId (contentPayment h) \<longrightarrow>
               contents (contentPayment (after t h)) k = contents (contentPayment h) k))"
proof (cases "exec t h")
  case (Inl e)
  then show ?thesis by (simp add: after_Inl)
next
  case (Inr x)
  obtain r h' where x: "exec t h = Inr (r, h')" using Inr by (cases x) simp
  show ?thesis
    using exec_ledger_effect [OF x] x
    by (auto simp: after_def new_id_def createContent_Inr purchaseContent_Inr
          updateContentPrice_Inr deactivateContent_Inr)
qed

lemma step_grants:
  assumes a: "userAccess (contentPayment h) u k"
  shows "userAccess (contentPayment (after t h)) u k"
proof (cases "exec t h")
  case (Inl e)
  then show ?thesis using a by (simp add: after_Inl)
next
  case (Inr x)
  obtain r h' where x: "exec t h = Inr (r, h')" using Inr by (cases x) simp
  show ?thesis
    using exec_ledger_effect [OF x] x a
    by (auto simp: after_def createContent_Inr purchaseContent_Inr
          updateContentPrice_Inr deactivateContent_Inr)
qed

lemma run_grants:
  "userAccess (contentPayment h) u k \<Longrightarrow> userAccess (contentPayment (run ts h)) u k"
  by (induction ts arbitrary: h) (simp_all add: step_grants)

lemma step_access:
  assumes "hasAccess u c (contentPayment h)" and "c < nextContentId (contentPayment h)"
  shows "hasAccess u c (contentPayment (after t h))
       \<and> c < nextContentId (contentPayment (after t h))"
proof -
  have lt: "c < nextContentId (contentPayment (after t h))"
    using step_ids [of t h] assms(2) by (auto simp: word_less_nat_alt)
  have "hasAccess u c (contentPayment (after t h))"
    using step_ids [of t h] step_grants [of h u c t] assms
    by (auto simp: hasAccess_def split: if_splits)
  then show ?thesis using lt by simp
qed

lemma run_access:
  "hasAccess u c (contentPayment h) \<Longrightarrow> c < nextContentId (contentPayment h) \<Longrightarrow>
   hasAccess u c (contentPayment (run ts h))"
  by (induction ts arbitrary: h) (simp_all add: step_access)

text \<open>
  The ids a run hands out are the numbers from the counter at its start up to the
  counter at its end.
\<close>

lemma run_ids:
  "new_ids ts h = map word_of_nat [unat (nextContentId (contentPayment h))
                                   ..< unat (nextContentId (contentPayment (run ts h)))]
   \<and> unat (nextContentId (contentPayment h)) \<le> unat (nextContentId (contentPayment (run ts h)))"
proof (induction ts arbitrary: h)
  case Nil
  then show ?case by simp
next
  case (Cons t ts)
  note IH = Cons.IH [of "after t h"]
  from step_ids [of t h] show ?case
  proof
    assume "new_id t h = []
      \<and> nextContentId (contentPayment (after t h)) = nextContentId (contentPayment h)
      \<and> (\<forall>k. creator (contents (contentPayment (after t h)) k)
               = creator (contents (contentPayment h) k))"
    then show ?thesis using IH by simp
  next
    assume a: "new_id t h = [nextContentId (contentPayment h)]
      \<and> unat (nextContentId (contentPayment (after t h)))
          = Suc (unat (nextContentId (contentPayment h)))
      \<and> (\<forall>k. k \<noteq> nextContentId (contentPayment h) \<longrightarrow>
               contents (contentPayment (after t h)) k = contents (contentPayment h) k)"
    then have lt: "unat (nextContentId (contentPayment h))
                 < unat (nextContentId (contentPayment (run ts (after t h))))"
      using IH by simp
    show ?thesis using a IH lt by (simp add: upt_conv_Cons)
  qed
qed

lemma new_ids_length:
  "unat (nextContentId (contentPayment (run ts h)))
     = unat (nextContentId (contentPayment h)) + length (new_ids ts h)"
  using run_ids [of ts h] by (metis le_add_diff_inverse length_map length_upt)

lemma sorted_word_of_nat_upt:
  assumes "n \<le> 2 ^ 256"
  shows "sorted_wrt (<) (map (word_of_nat :: nat \<Rightarrow> uint256) [m ..< n])"
proof -
  have "(word_of_nat x :: uint256) < word_of_nat y"
    if "x \<in> set [m ..< n]" "y \<in> set [m ..< n]" "x < y" for x y
  proof -
    have "x < 2 ^ 256" "y < 2 ^ 256" using that assms by auto
    then show ?thesis using that(3) by (simp add: word_less_nat_alt unat_of_nat)
  qed
  then have "sorted_wrt (\<lambda>x y. (word_of_nat x :: uint256) < word_of_nat y) [m ..< n]"
    using sorted_wrt_mono_rel [of "[m ..< n]" "(<)"] by simp
  then show ?thesis by (simp add: sorted_wrt_map)
qed

text \<open>
  The counters count: a run of \<open>n\<close> transactions raises \<^verbatim>\<open>totalCreators\<close> by at most
  \<open>n\<close>, so it does not reach the largest \<^verbatim>\<open>uint256\<close> in any run that can happen.
\<close>

lemma registerCreator_Inr:
  "registerCreator ctx c u b s = Inr s' \<Longrightarrow> unat (totalCreators s') = Suc (unat (totalCreators s))"
  by (auto simp: registerCreator_def checked_add_def Let_def unat_word_ariths
        split: if_splits)

lemma updateCreator_Inr:
  "updateCreator ctx u b s = Inr s' \<Longrightarrow> totalCreators s' = totalCreators s"
  by (auto simp: updateCreator_def Let_def split: if_splits)

lemma step_totalCreators:
  "unat (totalCreators (creatorProfile (after t h)))
     \<le> Suc (unat (totalCreators (creatorProfile h)))"
proof (cases "tx_call t")
  case (Profile_registerCreator c u b)
  then show ?thesis
    by (auto simp: after_def exec_def split: sum.splits if_splits dest: registerCreator_Inr)
next
  case (Profile_updateCreator u b)
  then show ?thesis
    by (auto simp: after_def exec_def split: sum.splits if_splits dest: updateCreator_Inr)
next
  case (Hub_registerCreator u b)
  then show ?thesis
    by (auto simp: after_def exec_def hub_registerCreator_def split: sum.splits if_splits
          dest: registerCreator_Inr)
next
  case (Hub_registerAndCreateContent u b ti ch p)
  then show ?thesis
    by (auto simp: after_def exec_def hub_registerAndCreateContent_def Let_def
          split: sum.splits if_splits dest: registerCreator_Inr)
qed (auto simp: after_def exec_def hub_createContent_def hub_purchaseContent_def
       hub_updatePlatformFee_def split: sum.splits if_splits)

lemma run_totalCreators:
  "unat (totalCreators (creatorProfile (run ts h)))
     \<le> unat (totalCreators (creatorProfile h)) + length ts"
proof (induction ts arbitrary: h)
  case Nil
  then show ?case by simp
next
  case (Cons t ts)
  show ?case using Cons.IH [of "after t h"] step_totalCreators [of t h] by simp
qed

lemmas example_defs =
  example_hub_def example_hub0_def example_txs_def example_deactivate_def
  example_ledger_def example_sold_def state_after_def
  tx_of_def ctx_of_def accept_all_def all_but_def
  alice_def bob_def carol_def hub_addr_def
  new_GlamoraHub_def new_CreatorProfile_def new_ContentPayment_def zero_Creator_def
  zero_Content_def after_def exec_def
  hub_registerAndCreateContent_def hub_purchaseContent_def hub_createContent_def
  hub_registerCreator_def from_hub_def
  registerCreator_def createContent_def purchaseContent_def updateContentPrice_def
  deactivateContent_def
  transfer_def checked_add_def isCreator_def Let_def

lemma example_addresses:
  "alice \<noteq> bob" "bob \<noteq> alice" "alice \<noteq> carol" "carol \<noteq> alice"
  "bob \<noteq> carol" "carol \<noteq> bob"
  by (simp_all add: alice_def bob_def carol_def)

lemma example_ledger_simps:
  "contents example_ledger 1 = \<lparr>contentId = 1, creator = alice, title = ''Tutorial'',
      contentHash = ''ref1'', price = 100, createdAt = 1700000000, isActive = True\<rparr>"
  "contents example_ledger 7 = zero_Content"
  "userAccess example_ledger u k = False"
  "totalRevenue example_ledger = 0"
  "nextContentId example_ledger = 2"
  by (simp_all add: example_defs)

lemma example_sold_simps:
  "contents example_sold 1 = \<lparr>contentId = 1, creator = alice, title = ''Tutorial'',
      contentHash = ''ref1'', price = 100, createdAt = 1700000000, isActive = True\<rparr>"
  "userAccess example_sold bob 1 = True"
  "totalRevenue example_sold = 100"
  by (simp_all add: example_defs)

lemma example_purchase:
  "purchaseContent (ctx_of carol) 100 accept_all bob 1 example_ledger
     = Inr ([(alice, 100)], example_sold)"
  "purchaseContent (ctx_of carol) 130 accept_all bob 1 example_ledger
     = Inr ([(alice, 100), (bob, 30)], example_sold)"
  by (simp_all add: example_defs)

lemma example_hub_simps:
  "contents (contentPayment example_hub) 1 = \<lparr>contentId = 1, creator = alice,
      title = ''Tutorial'', contentHash = ''ref1'', price = 100, createdAt = 1700000000,
      isActive = True\<rparr>"
  "userAccess (contentPayment example_hub) bob 1"
  "totalRevenue (contentPayment example_hub) = 100"
  "nextContentId (contentPayment example_hub) = 2"
  "isCreator alice (creatorProfile example_hub)"
  by (simp_all add: example_defs)

lemma example_hub_deactivate:
  "deactivateContent (ctx_of alice) 1 (contentPayment example_hub)
     = Inr (contentPayment (after example_deactivate example_hub))"
  by (simp add: example_defs)

lemma example_run:
  "new_ids example_txs example_hub0 = [1, 2]"
  "sales example_txs example_hub0 = [100, 250]"
  by (simp_all add: example_defs new_id_def sale_def)

section \<open>The claims\<close>

text \<open>
  C1 (the code departs from the claim). Claimed: for a content id with no content
  record, \<^verbatim>\<open>hasAccess\<close> returns the grant lookup, which is false when there is no
  grant. \<^verbatim>\<open>hasAccess\<close> compares the stored creator with the user before it looks at the
  grants, and does not check that the content exists; the creator of an id that was
  never assigned reads as the zero address. On a freshly deployed ledger no record
  exists for id 999 and nobody holds a grant, yet \<^verbatim>\<open>hasAccess(address(0), 999)\<close> is
  true, on the ledger and through \<^verbatim>\<open>hasAccessToContent\<close> of the hub.
\<close>

theorem hasAccess_zero_address_unassigned_id:
  "contents new_ContentPayment 999 = zero_Content
   \<and> \<not> userAccess new_ContentPayment 0 999
   \<and> hasAccess 0 999 new_ContentPayment
   \<and> hub_hasAccessToContent 0 999 example_hub0"
  by (simp add: hasAccess_def hub_hasAccessToContent_def example_hub0_def new_GlamoraHub_def
        new_ContentPayment_def zero_Content_def)

text \<open>
  C2 (amended). Claimed: the four preconditions of a purchase are checked in the order
  content exists and is active (\<open>NotFound\<close>), amount paid at least the price
  (\<open>InsufficientPayment\<close>), no grant yet (\<open>AlreadyPurchased\<close>), buyer is not the creator
  (\<open>SelfPurchaseForbidden\<close>), the first that fails gives the error, and when all hold
  the purchase succeeds. The order and the errors are as claimed. When all four hold
  the call goes on to the payment step, and it succeeds exactly when that step
  completes; when a recipient refuses a transfer it fails with \<open>TransferFailed\<close>
  (and with an arithmetic panic if the revenue counter would overflow).
\<close>

theorem purchase_precondition_order:
  "(case first_failure (purchase_preconditions v b c s) of
      Some e \<Rightarrow> purchaseContent ctx v acc b c s = Inl e
    | None \<Rightarrow>
       (if payment_completes v acc b c s
        then succeeded (purchaseContent ctx v acc b c s)
        else purchaseContent ctx v acc b c s = Inl TransferFailed
           \<or> purchaseContent ctx v acc b c s = Inl Panic))"
  by (auto simp: purchase_preconditions_def purchaseContent_def payment_completes_def
        transfer_def checked_add_def succeeded_def Let_def)

theorem purchase_precondition_order_witness:
  "purchaseContent (ctx_of carol) 100 accept_all bob 7 example_ledger = Inl NotFound
   \<and> purchaseContent (ctx_of carol) 99 accept_all bob 1 example_sold = Inl InsufficientPayment
   \<and> purchaseContent (ctx_of carol) 100 accept_all bob 1 example_sold = Inl AlreadyPurchased
   \<and> purchaseContent (ctx_of carol) 100 accept_all alice 1 example_ledger
       = Inl SelfPurchaseForbidden
   \<and> succeeded (purchaseContent (ctx_of carol) 100 accept_all bob 1 example_ledger)"
  using purchase_precondition_order
          [where v = 100 and b = bob and c = 7 and s = example_ledger
             and ctx = "ctx_of carol" and acc = accept_all]
    purchase_precondition_order
          [where v = 99 and b = bob and c = 1 and s = example_sold
             and ctx = "ctx_of carol" and acc = accept_all]
    purchase_precondition_order
          [where v = 100 and b = bob and c = 1 and s = example_sold
             and ctx = "ctx_of carol" and acc = accept_all]
    purchase_precondition_order
          [where v = 100 and b = alice and c = 1 and s = example_ledger
             and ctx = "ctx_of carol" and acc = accept_all]
    purchase_precondition_order
          [where v = 100 and b = bob and c = 1 and s = example_ledger
             and ctx = "ctx_of carol" and acc = accept_all]
  by (simp add: purchase_preconditions_def payment_completes_def example_ledger_simps
        example_sold_simps zero_Content_def accept_all_def example_addresses)

text \<open>
  All four preconditions hold, and the purchase fails: the creator of the content does
  not accept the payment.
\<close>

theorem purchase_fails_with_all_preconditions:
  "first_failure (purchase_preconditions 100 bob 1 example_ledger) = None
   \<and> purchaseContent (ctx_of carol) 100 (all_but alice) bob 1 example_ledger
       = Inl TransferFailed"
  by (simp add: purchase_preconditions_def purchaseContent_def example_ledger_simps
        transfer_def all_but_def example_addresses Let_def)

text \<open>
  C3. When all preconditions of a purchase hold and a transfer that the call reaches is
  refused (the payment to the creator, or the refund to the buyer), the call fails with
  \<open>TransferFailed\<close> and the state after it is the state before it: the buyer has no
  grant and \<^verbatim>\<open>totalRevenue\<close> is what it was. When the call succeeds, its effects are
  there together: the new state is the old one with the grant set and \<^verbatim>\<open>totalRevenue\<close>
  raised by the price, and the payments made are the price to the creator followed by
  the refund of any overpayment to the buyer.
\<close>

theorem purchase_transfer_failure_rolls_back:
  "(first_failure (purchase_preconditions v b c s) = None \<and> transfer_fails v acc b c s
      \<longrightarrow> purchaseContent ctx v acc b c s = Inl TransferFailed
        \<and> state_after s (purchaseContent ctx v acc b c s) = s
        \<and> \<not> userAccess (state_after s (purchaseContent ctx v acc b c s)) b c
        \<and> totalRevenue (state_after s (purchaseContent ctx v acc b c s)) = totalRevenue s)
   \<and> (purchaseContent ctx v acc b c s = Inr (sent, s')
      \<longrightarrow> s' = s\<lparr>userAccess := (userAccess s)(b := (userAccess s b)(c := True)),
                 totalRevenue := totalRevenue s + price (contents s c)\<rparr>
        \<and> unat (totalRevenue s') = unat (totalRevenue s) + unat (price (contents s c))
        \<and> sent = (creator (contents s c), price (contents s c))
                 # (if price (contents s c) < v then [(b, v - price (contents s c))] else []))"
proof -
  have fail: "purchaseContent ctx v acc b c s = Inl TransferFailed"
    if "first_failure (purchase_preconditions v b c s) = None" "transfer_fails v acc b c s"
    using that
    by (auto simp: purchase_preconditions_def purchaseContent_def transfer_fails_def
          transfer_def checked_add_def Let_def split: if_splits)
  have pre: "\<not> userAccess s b c"
    if "first_failure (purchase_preconditions v b c s) = None"
    using that by (auto simp: purchase_preconditions_def split: if_splits)
  have ok: "s' = s\<lparr>userAccess := (userAccess s)(b := (userAccess s b)(c := True)),
                 totalRevenue := totalRevenue s + price (contents s c)\<rparr>
        \<and> unat (totalRevenue s') = unat (totalRevenue s) + unat (price (contents s c))
        \<and> sent = (creator (contents s c), price (contents s c))
                 # (if price (contents s c) < v then [(b, v - price (contents s c))] else [])"
    if "purchaseContent ctx v acc b c s = Inr (sent, s')"
    using that
    by (auto simp: purchaseContent_def transfer_def checked_add_def Let_def unat_word_ariths
          split: if_splits)
  show ?thesis using fail pre ok by (simp add: state_after_def)
qed

theorem purchase_transfer_failure_rolls_back_witness:
  "purchaseContent (ctx_of carol) 100 (all_but alice) bob 1 example_ledger = Inl TransferFailed
   \<and> purchaseContent (ctx_of carol) 130 (all_but bob) bob 1 example_ledger = Inl TransferFailed
   \<and> \<not> userAccess (state_after example_ledger
          (purchaseContent (ctx_of carol) 130 (all_but bob) bob 1 example_ledger)) bob 1
   \<and> totalRevenue (state_after example_ledger
          (purchaseContent (ctx_of carol) 130 (all_but bob) bob 1 example_ledger)) = 0
   \<and> userAccess example_sold bob 1
   \<and> unat (totalRevenue example_sold) = 100"
  using purchase_transfer_failure_rolls_back
          [where v = 100 and b = bob and c = 1 and s = example_ledger
             and acc = "all_but alice" and ctx = "ctx_of carol"
             and sent = "[(alice, 100)]" and s' = example_sold]
    purchase_transfer_failure_rolls_back
          [where v = 130 and b = bob and c = 1 and s = example_ledger
             and acc = "all_but bob" and ctx = "ctx_of carol"
             and sent = "[(alice, 100)]" and s' = example_sold]
    purchase_transfer_failure_rolls_back
          [where v = 130 and b = bob and c = 1 and s = example_ledger
             and acc = accept_all and ctx = "ctx_of carol"
             and sent = "[(alice, 100), (bob, 30)]" and s' = example_sold]
  by (simp add: purchase_preconditions_def transfer_fails_def example_ledger_simps
        example_sold_simps example_purchase state_after_def all_but_def accept_all_def
        example_addresses)

text \<open>
  C4. A caller that is not registered calls \<^verbatim>\<open>registerAndCreateContent\<close> of the hub with
  a content part that does not pass validation (empty title, empty content hash or
  price zero). The call fails with \<open>InvalidInput\<close> and the deployed system is as it was
  before: the caller is not a creator. When the profile part is valid, the
  registration inside the call did succeed before the creation failed, so its effect
  is undone with the call. (The creator counter is assumed not to stand at the largest
  \<^verbatim>\<open>uint256\<close>, where the increment of a registration panics; \<open>run_totalCreators\<close>
  bounds the counter by the number of transactions.)
\<close>

theorem registerAndCreateContent_rolls_back_registration:
  assumes "\<not> hub_isCreator (msg_sender ctx) h"
      and "t = [] \<or> ch = [] \<or> p = 0"
      and "unat (totalCreators (creatorProfile h)) < 2 ^ 256 - 1"
  shows "hub_registerAndCreateContent ctx u b t ch p h = Inl InvalidInput
       \<and> after \<lparr>tx_ctx = ctx, tx_value = v, tx_accepts = acc,
                 tx_call = Hub_registerAndCreateContent u b t ch p\<rparr> h = h
       \<and> \<not> hub_isCreator (msg_sender ctx)
             (after \<lparr>tx_ctx = ctx, tx_value = v, tx_accepts = acc,
                      tx_call = Hub_registerAndCreateContent u b t ch p\<rparr> h)
       \<and> (if 0 < length u \<and> length u \<le> 50 \<and> length b \<le> 500
          then (case registerCreator (from_hub ctx h) (msg_sender ctx) u b (creatorProfile h) of
                  Inl e \<Rightarrow> False
                | Inr s' \<Rightarrow> isCreator (msg_sender ctx) s')
          else True)"
proof -
  have cc: "createContent c' a t ch p l = Inl InvalidInput" for c' a l
    using assms(2) by (auto simp: createContent_def)
  have r: "hub_registerAndCreateContent ctx u b t ch p h = Inl InvalidInput"
    using assms(1,3)
    by (auto simp: hub_registerAndCreateContent_def cc registerCreator_def checked_add_def
          hub_isCreator_def isCreator_def Let_def split: sum.splits)
  have reg: "(case registerCreator (from_hub ctx h) (msg_sender ctx) u b (creatorProfile h) of
                  Inl e \<Rightarrow> False
                | Inr s' \<Rightarrow> isCreator (msg_sender ctx) s')"
    if "0 < length u \<and> length u \<le> 50 \<and> length b \<le> 500"
    using that assms(1,3)
    by (auto simp: registerCreator_def checked_add_def hub_isCreator_def isCreator_def Let_def)
  show ?thesis using r reg assms(1) by (simp add: after_def exec_def)
qed

theorem registerAndCreateContent_rolls_back_registration_witness:
  "\<not> hub_isCreator alice example_hub0
   \<and> hub_registerAndCreateContent (ctx_of alice) ''Alice'' ''Fashion creator'' '''' ''ref1'' 100
        example_hub0 = Inl InvalidInput
   \<and> \<not> hub_isCreator alice
         (after (tx_of alice 0 (Hub_registerAndCreateContent ''Alice'' ''Fashion creator''
                                  '''' ''ref1'' 100)) example_hub0)
   \<and> (case registerCreator (from_hub (ctx_of alice) example_hub0) alice ''Alice''
             ''Fashion creator'' (creatorProfile example_hub0) of
         Inl e \<Rightarrow> False
       | Inr s' \<Rightarrow> isCreator (msg_sender (ctx_of alice)) s')"
  using registerAndCreateContent_rolls_back_registration
          [where ctx = "ctx_of alice" and h = example_hub0 and t = "''''" and ch = "''ref1''"
             and p = 100 and u = "''Alice''" and b = "''Fashion creator''" and v = 0
             and acc = accept_all]
  by (simp add: hub_isCreator_def isCreator_def example_hub0_def new_GlamoraHub_def
        new_CreatorProfile_def zero_Creator_def ctx_of_def tx_of_def)

text \<open>
  C5. A purchase that succeeds with \<open>amountPaid = price + k\<close>, \<open>k > 0\<close>, makes exactly
  two payments, \<open>price\<close> to the creator of the content and \<open>k\<close> to the buyer, and raises
  \<^verbatim>\<open>totalRevenue\<close> by \<open>price\<close>.
\<close>

theorem overpayment_refund:
  assumes "purchaseContent ctx v acc b c s = Inr (sent, s')"
      and "unat v = unat (price (contents s c)) + k" and "0 < k"
  shows "sent = [(creator (contents s c), price (contents s c)), (b, word_of_nat k)]
       \<and> unat (word_of_nat k :: uint256) = k
       \<and> unat (totalRevenue s') = unat (totalRevenue s) + unat (price (contents s c))"
proof -
  have lt: "price (contents s c) < v"
    using assms(2,3) by (simp add: word_less_nat_alt)
  have u: "unat (v - price (contents s c)) = k"
    using assms(2) lt by (simp add: unat_sub word_le_less_eq)
  then have k: "v - price (contents s c) = word_of_nat k"
    by (metis of_nat_unat ucast_id)
  have kk: "unat (word_of_nat k :: uint256) = k"
    using u k by simp
  show ?thesis using assms(1) lt k kk
    by (auto simp: purchaseContent_def transfer_def checked_add_def Let_def unat_word_ariths
          split: if_splits)
qed

theorem overpayment_refund_witness:
  "purchaseContent (ctx_of carol) 130 accept_all bob 1 example_ledger
     = Inr ([(alice, 100), (bob, 30)], example_sold)
   \<and> price (contents example_ledger 1) = 100
   \<and> creator (contents example_ledger 1) = alice
   \<and> unat (totalRevenue example_sold) = unat (totalRevenue example_ledger) + 100"
  using overpayment_refund
          [where ctx = "ctx_of carol" and v = 130 and acc = accept_all and b = bob and c = 1
             and s = example_ledger and sent = "[(alice, 100), (bob, 30)]"
             and s' = example_sold and k = 30]
  by (simp add: example_purchase example_ledger_simps)

text \<open>
  C6. After any sequence of transactions on a freshly deployed hub, \<^verbatim>\<open>totalRevenue\<close> is
  the sum, over the purchases that succeeded, of the price the content had when the
  purchase ran (\<open>sales\<close>); from any other state it has grown by that sum. A call of
  \<^verbatim>\<open>updateContentPrice\<close> leaves \<^verbatim>\<open>totalRevenue\<close> as it is, whether it succeeds or not.
\<close>

theorem totalRevenue_is_sum_of_sales:
  "unat (totalRevenue (contentPayment (run ts (new_GlamoraHub ctx this))))
     = sum_list (sales ts (new_GlamoraHub ctx this))
   \<and> unat (totalRevenue (contentPayment (run ts h)))
     = unat (totalRevenue (contentPayment h)) + sum_list (sales ts h)
   \<and> totalRevenue (contentPayment (after (t\<lparr>tx_call := Payment_updateContentPrice cid p\<rparr>) h))
     = totalRevenue (contentPayment h)"
proof -
  have upd: "totalRevenue (contentPayment (after (t\<lparr>tx_call := Payment_updateContentPrice cid p\<rparr>) h))
     = totalRevenue (contentPayment h)"
    by (auto simp: after_def exec_def updateContentPrice_Inr split: sum.splits if_splits)
  show ?thesis
    using run_revenue [of ts "new_GlamoraHub ctx this"] run_revenue [of ts h] upd
    by (simp add: new_GlamoraHub_def new_ContentPayment_def)
qed

theorem totalRevenue_is_sum_of_sales_witness:
  "sales example_txs example_hub0 = [100, 250]
   \<and> unat (totalRevenue (contentPayment (run example_txs example_hub0))) = 350"
  using totalRevenue_is_sum_of_sales
          [where ts = example_txs and ctx = "ctx_of carol" and this = hub_addr
             and h = example_hub0 and t = "tx_of alice 0 (Payment_updateContentPrice 1 250)"
             and cid = 1 and p = 250]
  by (simp add: example_run example_hub0_def [symmetric])

text \<open>
  C7. In any sequence of transactions on a freshly deployed hub, whoever the callers
  and creators are and whatever is deactivated in between, the content ids returned by
  the successful creations are 1, 2, 3, ... in this order: strictly increasing, and no
  id is returned twice.
\<close>

theorem content_ids_strictly_increasing:
  "new_ids ts (new_GlamoraHub ctx this)
     = map word_of_nat [1 ..< Suc (length (new_ids ts (new_GlamoraHub ctx this)))]
   \<and> sorted_wrt (<) (new_ids ts (new_GlamoraHub ctx this))
   \<and> distinct (new_ids ts (new_GlamoraHub ctx this))"
proof -
  let ?h = "new_GlamoraHub ctx this"
  let ?n = "unat (nextContentId (contentPayment (run ts ?h)))"
  have one: "unat (nextContentId (contentPayment ?h)) = 1"
    by (simp add: new_GlamoraHub_def new_ContentPayment_def)
  have ids: "new_ids ts ?h = map word_of_nat [1 ..< ?n]"
    using run_ids [of ts ?h] one by simp
  have n: "?n = Suc (length (new_ids ts ?h))"
    using new_ids_length [of ts ?h] one by simp
  have "?n \<le> 2 ^ 256"
    using unsigned_less [of "nextContentId (contentPayment (run ts ?h))", where 'a = nat]
    by simp
  then have "sorted_wrt (<) (map (word_of_nat :: nat \<Rightarrow> uint256) [1 ..< ?n])"
    by (rule sorted_word_of_nat_upt)
  then have s: "sorted_wrt (<) (new_ids ts ?h)"
    by (simp only: ids)
  then have d: "distinct (new_ids ts ?h)" by (simp only: strict_sorted_iff)
  have e: "new_ids ts ?h = map word_of_nat [1 ..< Suc (length (new_ids ts ?h))]"
    unfolding n [symmetric] by (rule ids)
  show ?thesis using e s d by (intro conjI)
qed

theorem content_ids_strictly_increasing_witness:
  "new_ids example_txs example_hub0 = [1, 2]
   \<and> new_ids (example_txs @ [example_deactivate,
        tx_of carol 0 (Payment_createContent alice ''Third'' ''ref3'' 5)]) example_hub0
      = [1, 2, 3]
   \<and> sorted_wrt (<) (new_ids example_txs example_hub0)"
  using content_ids_strictly_increasing
          [where ts = example_txs and ctx = "ctx_of carol" and this = hub_addr]
  by (simp add: example_defs new_id_def)

text \<open>
  C8 (the code departs from the claim). Claimed: for every user and content id, once
  \<^verbatim>\<open>hasAccess\<close> is true it stays true after every later operation. This is the slip of
  C1 again: \<^verbatim>\<open>hasAccess\<close> does not check that the content exists, and the creator of an
  id that was never assigned reads as the zero address. On a freshly deployed system
  \<^verbatim>\<open>hasAccess(address(0), 1)\<close> is true with no grant stored; once alice has created the
  content with id 1, on the ledger directly or through the hub, it is false.
\<close>

theorem hasAccess_lost_when_id_assigned:
  "hasAccess 0 1 new_ContentPayment
   \<and> \<not> userAccess new_ContentPayment 0 1
   \<and> succeeded (createContent (ctx_of carol) alice ''Tutorial'' ''ref1'' 100 new_ContentPayment)
   \<and> \<not> hasAccess 0 1 example_ledger
   \<and> hub_hasAccessToContent 0 1 example_hub0
   \<and> succeeded (exec (tx_of alice 0 (Hub_registerAndCreateContent ''Alice''
                   ''Fashion creator'' ''Tutorial'' ''ref1'' 100)) example_hub0)
   \<and> \<not> hub_hasAccessToContent 0 1 (run (take 1 example_txs) example_hub0)"
  by (simp add: hasAccess_def hub_hasAccessToContent_def succeeded_def example_defs)

text \<open>
  What the code does keep. A grant that is stored stays stored through any sequence of
  transactions; and for a content \<open>c\<close> that has been created (its id is below the
  counter \<^verbatim>\<open>nextContentId\<close>), a user for whom \<^verbatim>\<open>hasAccess\<close> is true, by a grant or as
  the creator, still has it after any sequence of transactions. In particular, when
  the creator deactivates \<open>c\<close>, \<^verbatim>\<open>getContent(c)\<close> fails with \<open>NotFound\<close> and whoever had
  access before still has it.
\<close>

lemma access_kept_once_created:
  "(hasAccess u c (contentPayment h) \<and> c < nextContentId (contentPayment h)
      \<longrightarrow> hasAccess u c (contentPayment (run ts h)))
 \<and> (userAccess (contentPayment h) u c \<longrightarrow> userAccess (contentPayment (run ts h)) u c)
 \<and> (deactivateContent ctx c l = Inr l'
      \<longrightarrow> getContent c l' = Inl NotFound \<and> (hasAccess u c l \<longrightarrow> hasAccess u c l'))"
proof -
  have "getContent c l' = Inl NotFound \<and> (hasAccess u c l \<longrightarrow> hasAccess u c l')"
    if "deactivateContent ctx c l = Inr l'"
    using deactivateContent_Inr [OF that]
    by (simp add: getContent_def hasAccess_def)
  then show ?thesis using run_access run_grants by blast
qed

lemma access_kept_once_created_example:
  "hasAccess bob 1 (contentPayment example_hub)
   \<and> (1 :: uint256) < nextContentId (contentPayment example_hub)
   \<and> hasAccess bob 1 (contentPayment (run (example_deactivate # drop 2 example_txs) example_hub))
   \<and> userAccess (contentPayment (run (example_deactivate # drop 2 example_txs) example_hub)) bob 1
   \<and> getContent 1 (contentPayment (after example_deactivate example_hub)) = Inl NotFound
   \<and> hasAccess bob 1 (contentPayment (after example_deactivate example_hub))"
  using access_kept_once_created
          [where u = bob and c = 1 and h = example_hub
             and ts = "example_deactivate # drop 2 example_txs"
             and ctx = "ctx_of alice" and l = "contentPayment example_hub"
             and l' = "contentPayment (after example_deactivate example_hub)"]
  by (simp add: hasAccess_iff example_hub_simps example_hub_deactivate)

text \<open>
  C9 (amended). Claimed: the ledger's \<^verbatim>\<open>createContent\<close> fails with \<open>InvalidInput\<close> when
  the creator id is the zero address. The function has no check on \<^verbatim>\<open>_creator\<close> at all:
  for every creator id, zero included, it fails with \<open>InvalidInput\<close> exactly when the
  title is empty, the content hash is empty or the price is zero.
\<close>

theorem createContent_InvalidInput_iff:
  "(createContent ctx c t ch p s = Inl InvalidInput) = (t = [] \<or> ch = [] \<or> p = 0)"
  by (auto simp: createContent_def checked_add_def Let_def word_greater_zero_iff
        split: sum.splits if_splits)

theorem createContent_InvalidInput_iff_witness:
  "createContent (ctx_of carol) 0 '''' ''ref1'' 100 new_ContentPayment = Inl InvalidInput
   \<and> createContent (ctx_of carol) alice ''Tutorial'' ''ref1'' 0 new_ContentPayment
       = Inl InvalidInput
   \<and> createContent (ctx_of carol) 0 ''Tutorial'' ''ref1'' 100 new_ContentPayment
       \<noteq> Inl InvalidInput"
  using createContent_InvalidInput_iff
          [where ctx = "ctx_of carol" and c = 0 and t = "''''" and ch = "''ref1''" and p = 100
             and s = new_ContentPayment]
    createContent_InvalidInput_iff
          [where ctx = "ctx_of carol" and c = alice and t = "''Tutorial''" and ch = "''ref1''"
             and p = 0 and s = new_ContentPayment]
    createContent_InvalidInput_iff
          [where ctx = "ctx_of carol" and c = 0 and t = "''Tutorial''" and ch = "''ref1''"
             and p = 100 and s = new_ContentPayment]
  by simp

text \<open>
  With the zero address as creator and a valid title, content hash and price, the call
  succeeds, returns id 1 and stores an active content whose creator is the zero
  address.
\<close>

theorem createContent_accepts_zero_creator:
  "succeeded (createContent (ctx_of carol) 0 ''Tutorial'' ''ref1'' 100 new_ContentPayment)
   \<and> creator (contents (state_after new_ContentPayment
         (createContent (ctx_of carol) 0 ''Tutorial'' ''ref1'' 100 new_ContentPayment)) 1) = 0
   \<and> isActive (contents (state_after new_ContentPayment
         (createContent (ctx_of carol) 0 ''Tutorial'' ''ref1'' 100 new_ContentPayment)) 1)"
  by (simp add: succeeded_def state_after_def createContent_def new_ContentPayment_def
        checked_add_def ctx_of_def Let_def)

text \<open>
  C10. \<^verbatim>\<open>registerCreator\<close> of CreatorProfile and \<^verbatim>\<open>createContent\<close> of ContentPayment do
  not read \<^verbatim>\<open>msg.sender\<close>: two calls that differ only in the caller give the same
  result and the same state. So any account \<open>x\<close> can create content in the name of a
  creator \<open>c\<close> that is not registered, which the hub refuses to \<open>c\<close> itself with
  \<open>NotRegistered\<close>, and can register any identity \<open>c\<close>. \<^verbatim>\<open>updateCreator\<close>,
  \<^verbatim>\<open>updateContentPrice\<close> and \<^verbatim>\<open>deactivateContent\<close> do look at the caller: they succeed
  only for a registered caller, and for the creator of the content.
\<close>

theorem sub_contracts_ignore_caller:
  "registerCreator (ctx\<lparr>msg_sender := x\<rparr>) c u b s
     = registerCreator (ctx\<lparr>msg_sender := y\<rparr>) c u b s
 \<and> createContent (ctx\<lparr>msg_sender := x\<rparr>) c t ch p l
     = createContent (ctx\<lparr>msg_sender := y\<rparr>) c t ch p l
 \<and> (\<not> isCreator c (creatorProfile h) \<and> t \<noteq> [] \<and> ch \<noteq> [] \<and> 0 < p
      \<and> unat (nextContentId (contentPayment h)) < 2 ^ 256 - 1
     \<longrightarrow> hub_createContent (ctx\<lparr>msg_sender := c\<rparr>) t ch p h = Inl NotRegistered
       \<and> (case createContent (ctx\<lparr>msg_sender := x\<rparr>) c t ch p (contentPayment h) of
            Inl e \<Rightarrow> False
          | Inr (cid, l') \<Rightarrow> cid = nextContentId (contentPayment h)
               \<and> creator (contents l' cid) = c \<and> isActive (contents l' cid)))
 \<and> (\<not> isCreator c s \<and> 0 < length u \<and> length u \<le> 50 \<and> length b \<le> 500
      \<and> unat (totalCreators s) < 2 ^ 256 - 1
     \<longrightarrow> (case registerCreator (ctx\<lparr>msg_sender := x\<rparr>) c u b s of
            Inl e \<Rightarrow> False
          | Inr s' \<Rightarrow> isCreator c s'))
 \<and> (succeeded (updateCreator ctx u b s) \<longrightarrow> isCreator (msg_sender ctx) s)
 \<and> (succeeded (updateContentPrice ctx cid p l) \<longrightarrow> msg_sender ctx = creator (contents l cid))
 \<and> (succeeded (deactivateContent ctx cid l) \<longrightarrow> msg_sender ctx = creator (contents l cid))"
proof -
  have 1: "registerCreator (ctx\<lparr>msg_sender := x\<rparr>) c u b s
         = registerCreator (ctx\<lparr>msg_sender := y\<rparr>) c u b s"
    by (simp add: registerCreator_def)
  have 2: "createContent (ctx\<lparr>msg_sender := x\<rparr>) c t ch p l
         = createContent (ctx\<lparr>msg_sender := y\<rparr>) c t ch p l"
    by (simp add: createContent_def)
  have 3: "hub_createContent (ctx\<lparr>msg_sender := c\<rparr>) t ch p h = Inl NotRegistered"
    if "\<not> isCreator c (creatorProfile h)"
    using that by (simp add: hub_createContent_def)
  have 4: "(case createContent (ctx\<lparr>msg_sender := x\<rparr>) c t ch p (contentPayment h) of
            Inl e \<Rightarrow> False
          | Inr (cid, l') \<Rightarrow> cid = nextContentId (contentPayment h)
               \<and> creator (contents l' cid) = c \<and> isActive (contents l' cid))"
    if "t \<noteq> []" "ch \<noteq> []" "0 < p" "unat (nextContentId (contentPayment h)) < 2 ^ 256 - 1"
    using that by (simp add: createContent_def checked_add_def Let_def)
  have 5: "(case registerCreator (ctx\<lparr>msg_sender := x\<rparr>) c u b s of
            Inl e \<Rightarrow> False
          | Inr s' \<Rightarrow> isCreator c s')"
    if "\<not> isCreator c s" "0 < length u" "length u \<le> 50" "length b \<le> 500"
       "unat (totalCreators s) < 2 ^ 256 - 1"
    using that by (simp add: registerCreator_def checked_add_def isCreator_def Let_def)
  have 6: "isCreator (msg_sender ctx) s" if "succeeded (updateCreator ctx u b s)"
    using that by (auto simp: succeeded_def updateCreator_def isCreator_def Let_def split: if_splits)
  have 7: "msg_sender ctx = creator (contents l cid)"
    if "succeeded (updateContentPrice ctx cid p l)"
    using that by (auto simp: succeeded_def updateContentPrice_def Let_def split: if_splits)
  have 8: "msg_sender ctx = creator (contents l cid)"
    if "succeeded (deactivateContent ctx cid l)"
    using that by (auto simp: succeeded_def deactivateContent_def Let_def split: if_splits)
  show ?thesis using 1 2 3 4 5 6 7 8 by blast
qed

theorem sub_contracts_ignore_caller_witness:
  "\<not> isCreator bob (creatorProfile example_hub)
   \<and> hub_createContent (ctx_of bob) ''Second'' ''ref2'' 70 example_hub = Inl NotRegistered
   \<and> succeeded (createContent (ctx_of carol) bob ''Second'' ''ref2'' 70
                  (contentPayment example_hub))
   \<and> succeeded (registerCreator (ctx_of carol) bob ''Bob'' '''' (creatorProfile example_hub))
   \<and> succeeded (updateCreator (ctx_of alice) ''Bob'' '''' (creatorProfile example_hub))
   \<and> succeeded (updateContentPrice (ctx_of alice) 1 70 (contentPayment example_hub))
   \<and> succeeded (deactivateContent (ctx_of alice) 1 (contentPayment example_hub))
   \<and> \<not> succeeded (deactivateContent (ctx_of bob) 1 (contentPayment example_hub))
   \<and> msg_sender (ctx_of alice) = creator (contents (contentPayment example_hub) 1)"
  using sub_contracts_ignore_caller
          [where ctx = "ctx_of alice" and x = carol and y = bob and c = bob
             and u = "''Bob''" and b = "''''" and s = "creatorProfile example_hub"
             and t = "''Second''" and ch = "''ref2''" and p = 70
             and l = "contentPayment example_hub" and h = example_hub and cid = 1]
  by (simp add: example_defs succeeded_def updateCreator_def)

end
